theory Spec2Isabelle
  imports Complex_Main
begin

section \<open>Data model\<close>

text \<open>
  The module under verification is \<^verbatim>\<open>zerotwobot/modules/helper_funcs/chat_status.py\<close>:
  the permission guards of a Telegram group bot.  Identifiers of users and chats are
  Python integers.
\<close>

type_synonym user_id = int
type_synonym chat_id = int

text \<open>
  Exceptions that the modelled code can raise.  \<open>TelegramError\<close> stands for any failure
  of an awaited platform request; \<open>AttributeError\<close> is Python's error for reading an
  attribute of \<^verbatim>\<open>None\<close> or a missing attribute through \<^verbatim>\<open>getattr\<close>; \<open>TypeError\<close> is
  raised by \<^verbatim>\<open>" " not in None\<close>.
\<close>

datatype py_error = AttributeError | TypeError | TelegramError

datatype chat_kind = PRIVATE | GROUP | SUPERGROUP | CHANNEL

datatype chat_member_status = ADMINISTRATOR | OWNER | BANNED | LEFT | MEMBER | RESTRICTED

text \<open>
  A membership record is an instance of one of the six \<^verbatim>\<open>ChatMember\<close> subclasses.  Only
  the administrator record carries capability attributes; they are kept as an
  association list from attribute name to the truth value of the attribute, so that
  \<^verbatim>\<open>getattr(member, permission)\<close> is a lookup that fails on an unknown name.
\<close>

datatype chat_member =
    ChatMemberOwner
  | ChatMemberAdministrator "(string \<times> bool) list"
  | ChatMemberMember
  | ChatMemberRestricted
  | ChatMemberLeft
  | ChatMemberBanned

fun status :: "chat_member \<Rightarrow> chat_member_status" where
  "status ChatMemberOwner = OWNER"
| "status (ChatMemberAdministrator attrs) = ADMINISTRATOR"
| "status ChatMemberMember = MEMBER"
| "status ChatMemberRestricted = RESTRICTED"
| "status ChatMemberLeft = LEFT"
| "status ChatMemberBanned = BANNED"

record chat =
  chat_id :: chat_id
  chat_type :: chat_kind
  chat_title :: "string option"

text \<open>
  What a guard reads of an incoming update: the effective chat, the effective user
  (absent for updates without a sender), the text of the effective message, the title
  of the chat the message was posted in, and the bot's own identifier
  (\<^verbatim>\<open>context.bot.id\<close>).
\<close>

record update =
  effective_chat :: chat
  effective_user :: "user_id option"
  message_text :: "string option"
  message_chat_title :: "string option"
  bot_id :: user_id

text \<open>
  The names imported from the package's \<^verbatim>\<open>__init__\<close> (the tier lists, the
  delete-commands flag and the support chat) are a parameter of every function.
\<close>

record config =
  DEL_CMDS :: bool
  DEMONS :: "user_id list"
  DEV_USERS :: "user_id list"
  DRAGONS :: "user_id list"
  SUPPORT_CHAT :: string
  TIGERS :: "user_id list"
  WOLVES :: "user_id list"

text \<open>
  The platform as the module sees it: \<^verbatim>\<open>chat.get_member\<close>, \<^verbatim>\<open>getChatAdministrators\<close>
  (each may fail) and the time one awaited request takes, in seconds.
\<close>

record upstream =
  chat_get_member :: "chat_id \<Rightarrow> user_id \<Rightarrow> py_error + chat_member"
  bot_getChatAdministrators :: "chat_id \<Rightarrow> py_error + (user_id \<times> chat_member) list"
  latency :: real

section \<open>The administrator cache\<close>

text \<open>
  Modelled from the spec: the class \<^verbatim>\<open>cachetools.TTLCache\<close> behind \<^verbatim>\<open>ADMIN_CACHE\<close> is
  not part of the sources.  Following the specification's words, the cache maps a chat
  identifier to the list of administrators, an entry expires 600 seconds after it was
  stored, a lookup of an absent or expired entry is a miss, at most 512 entries are
  live, and creating an entry beyond this bound evicts the least recently used one
  first.  The constants are those of the constructor call
  \<^verbatim>\<open>TTLCache(maxsize=512, ttl=60 * 10, timer=perf_counter)\<close> (source line 14).  Entries
  are listed from the least to the most recently used; readings of the timer are real
  numbers.
\<close>

record cache_entry =
  entry_key :: chat_id
  entry_value :: "user_id list"
  expires :: real

type_synonym ttl_cache = "cache_entry list"

definition maxsize :: nat where
  "maxsize = 512"

definition ttl :: real where
  "ttl = 60 * 10"

text \<open>
  Modelled from the spec: the entry a lookup at time \<open>t\<close> finds, one for the key that
  has not expired (\<^verbatim>\<open>TTLCache.__getitem__\<close> is not part of the sources).
\<close>

definition cache_find :: "real \<Rightarrow> ttl_cache \<Rightarrow> chat_id \<Rightarrow> cache_entry option" where
  "cache_find t c k = find (\<lambda>e. entry_key e = k \<and> t < expires e) c"

text \<open>
  Modelled from the spec: \<^verbatim>\<open>ADMIN_CACHE[chat.id]\<close> read at time \<open>t\<close>
  (\<^verbatim>\<open>TTLCache.__getitem__\<close> is not part of the sources).  A miss, Python's \<^verbatim>\<open>KeyError\<close>,
  leaves the cache as it is; a hit makes the entry the most recently used one.
\<close>

definition cache_lookup :: "real \<Rightarrow> ttl_cache \<Rightarrow> chat_id \<Rightarrow> user_id list option \<times> ttl_cache" where
  "cache_lookup t c k =
     (case cache_find t c k of
        None \<Rightarrow> (None, c)
      | Some e \<Rightarrow> (Some (entry_value e), filter (\<lambda>x. entry_key x \<noteq> k) c @ [e]))"

text \<open>
  Modelled from the spec: the entries that stay when key \<open>k\<close> is stored at time \<open>t\<close>
  (\<^verbatim>\<open>TTLCache.__setitem__\<close> is not part of the sources).  Expired entries go; an entry
  of the key is overwritten; for a new key in a full cache the least recently used
  entry is evicted.
\<close>

definition kept_entries :: "real \<Rightarrow> ttl_cache \<Rightarrow> chat_id \<Rightarrow> ttl_cache" where
  "kept_entries t c k =
     (let unexpired = filter (\<lambda>e. t < expires e) c
      in if k \<in> entry_key ` set unexpired
         then filter (\<lambda>e. entry_key e \<noteq> k) unexpired
         else if maxsize \<le> length unexpired then tl unexpired
         else unexpired)"

text \<open>
  Modelled from the spec: \<^verbatim>\<open>ADMIN_CACHE[chat.id] = admin_list\<close> at time \<open>t\<close>
  (\<^verbatim>\<open>TTLCache.__setitem__\<close> is not part of the sources).  The stored entry is the most
  recently used one and expires \<open>ttl\<close> seconds later.
\<close>

definition cache_store :: "real \<Rightarrow> ttl_cache \<Rightarrow> chat_id \<Rightarrow> user_id list \<Rightarrow> ttl_cache" where
  "cache_store t c k v =
     kept_entries t c k @ [\<lparr>entry_key = k, entry_value = v, expires = t + ttl\<rparr>]"

section \<open>Effects\<close>

text \<open>
  The process state a guard can touch: the cache, the reading of \<^verbatim>\<open>perf_counter\<close>,
  and the requests sent to the platform so far, in order.
\<close>

datatype effect =
    GetMember chat_id user_id
  | GetChatAdministrators chat_id
  | ReplyText string
  | ReplyHTML string
  | DeleteMessage

record world =
  admin_cache :: ttl_cache
  now :: real
  trace :: "effect list"

text \<open>
  What a wrapped handler returns to its caller: the result of the guarded function
  (which was therefore invoked), the result of the reply it sent, or \<^verbatim>\<open>None\<close>.
\<close>

datatype returned = FuncResult | ReplyResult | NoneResult

type_synonym 'a io = "world \<Rightarrow> (py_error + 'a) \<times> world"

definition return_io :: "'a \<Rightarrow> 'a io" where
  "return_io x w = (Inr x, w)"

definition raise_io :: "py_error \<Rightarrow> 'a io" where
  "raise_io e w = (Inl e, w)"

definition bind_io :: "'a io \<Rightarrow> ('a \<Rightarrow> 'b io) \<Rightarrow> 'b io" where
  "bind_io m f w = (case m w of (Inl e, w') \<Rightarrow> (Inl e, w') | (Inr x, w') \<Rightarrow> f x w')"

definition request :: "upstream \<Rightarrow> effect \<Rightarrow> (py_error + 'a) \<Rightarrow> 'a io" where
  "request up e r w = (r, w\<lparr>now := now w + latency up, trace := trace w @ [e]\<rparr>)"

definition get_member :: "upstream \<Rightarrow> chat \<Rightarrow> user_id \<Rightarrow> chat_member io" where
  "get_member up c uid = request up (GetMember (chat_id c) uid) (chat_get_member up (chat_id c) uid)"

definition getChatAdministrators :: "upstream \<Rightarrow> chat_id \<Rightarrow> (user_id \<times> chat_member) list io" where
  "getChatAdministrators up cid = request up (GetChatAdministrators cid) (bot_getChatAdministrators up cid)"

text \<open>
  Sending a reply and deleting the invoking message are recorded; the model does not
  follow a failure of the sending request itself.
\<close>

definition send :: "upstream \<Rightarrow> effect \<Rightarrow> unit io" where
  "send up e = request up e (Inr ())"

definition reply_text :: "upstream \<Rightarrow> string \<Rightarrow> returned io" where
  "reply_text up s = bind_io (send up (ReplyText s)) (\<lambda>_. return_io ReplyResult)"

definition call_func :: "returned io" where
  "call_func = return_io FuncResult"

definition user_id_of :: "update \<Rightarrow> user_id io" where
  "user_id_of u = (case effective_user u of None \<Rightarrow> raise_io AttributeError | Some i \<Rightarrow> return_io i)"

definition cache_getitem :: "chat_id \<Rightarrow> user_id list option io" where
  "cache_getitem k w =
     (case cache_lookup (now w) (admin_cache w) k of
        (r, c) \<Rightarrow> (Inr r, w\<lparr>admin_cache := c\<rparr>))"

definition cache_setitem :: "chat_id \<Rightarrow> user_id list \<Rightarrow> unit io" where
  "cache_setitem k v w = (Inr (), w\<lparr>admin_cache := cache_store (now w) (admin_cache w) k v\<rparr>)"

section \<open>The guard \<^verbatim>\<open>check_admin\<close>\<close>

record check_admin_args =
  permission :: "string option"
  is_bot :: bool
  is_user :: bool
  is_both :: bool
  only_owner :: bool
  only_sudo :: bool
  only_dev :: bool

text \<open>
  Python values as far as \<^verbatim>\<open>user.id in [DRAGONS, DEV_USERS]\<close> needs them: the operator
  compares the integer on the left with each element of the two-element list, and
  these elements are the two tier collections themselves.
\<close>

datatype py_value = PyInt int | PyCollection "int list"

definition py_in :: "py_value \<Rightarrow> py_value list \<Rightarrow> bool" where
  "py_in x xs = (x \<in> set xs)"

text \<open>\<^verbatim>\<open>getattr(member, permission) if isinstance(member, ChatMemberAdministrator) else False\<close>\<close>

definition getattr_if_administrator :: "chat_member option \<Rightarrow> string \<Rightarrow> bool io" where
  "getattr_if_administrator m p =
     (case m of
        Some (ChatMemberAdministrator attrs) \<Rightarrow>
          (case map_of attrs p of None \<Rightarrow> raise_io AttributeError | Some b \<Rightarrow> return_io b)
      | _ \<Rightarrow> return_io False)"

text \<open>
  The condition of the \<^verbatim>\<open>elif\<close> on the user's side.  A conditional expression binds
  weaker than \<^verbatim>\<open>or\<close>, so the source reads
  \<^verbatim>\<open>getattr(...) if isinstance(...) else (False or user.id in DRAGONS)\<close>.
\<close>

definition getattr_else_dragon :: "config \<Rightarrow> update \<Rightarrow> chat_member option \<Rightarrow> string \<Rightarrow> bool io" where
  "getattr_else_dragon cfg u m p =
     (case m of
        Some (ChatMemberAdministrator attrs) \<Rightarrow>
          (case map_of attrs p of None \<Rightarrow> raise_io AttributeError | Some b \<Rightarrow> return_io b)
      | _ \<Rightarrow> bind_io (user_id_of u) (\<lambda>uid. return_io (False \<or> uid \<in> set (DRAGONS cfg))))"

text \<open>\<^verbatim>\<open>isinstance(user_member, ChatMemberOwner) or user.id in DEV_USERS\<close>\<close>

definition owner_or_dev :: "config \<Rightarrow> update \<Rightarrow> chat_member option \<Rightarrow> bool io" where
  "owner_or_dev cfg u m =
     (if m = Some ChatMemberOwner then return_io True
      else bind_io (user_id_of u) (\<lambda>uid. return_io (uid \<in> set (DEV_USERS cfg))))"

text \<open>\<^verbatim>\<open>member.status\<close>, where the member may be \<^verbatim>\<open>None\<close>.\<close>

definition status_of :: "chat_member option \<Rightarrow> chat_member_status io" where
  "status_of m = (case m of None \<Rightarrow> raise_io AttributeError | Some x \<Rightarrow> return_io (status x))"

text \<open>The branch taken when no permission is named (source lines 102 to 113).\<close>

definition plain_check ::
  "config \<Rightarrow> upstream \<Rightarrow> update \<Rightarrow> chat_member option \<Rightarrow> chat_member option \<Rightarrow> returned io" where
  "plain_check cfg up u bot_member user_member =
     bind_io (status_of bot_member) (\<lambda>bs.
       if bs = ADMINISTRATOR then
         bind_io (status_of user_member) (\<lambda>us.
           if us \<in> set [ADMINISTRATOR, OWNER] then return_io NoneResult
           else bind_io (user_id_of u) (\<lambda>uid.
             if uid \<in> set (DRAGONS cfg) then return_io NoneResult
             else reply_text up ''You are not admin here.''))
       else reply_text up ''I'm not admin here.'')"

text \<open>The branch taken when a permission is named (source lines 70 to 101).\<close>

definition permission_check ::
  "config \<Rightarrow> upstream \<Rightarrow> check_admin_args \<Rightarrow> update \<Rightarrow> string \<Rightarrow>
     chat_member option \<Rightarrow> chat_member option \<Rightarrow> returned io" where
  "permission_check cfg up a u p bot_member user_member =
     (if is_bot a then
        bind_io (getattr_if_administrator bot_member p) (\<lambda>ok.
          if ok then call_func
          else reply_text up (''I don't have '' @ p @ '' to do this action.''))
      else if is_user a then
        (if user_member = Some ChatMemberOwner then call_func
         else bind_io (getattr_else_dragon cfg u user_member p) (\<lambda>ok.
           if ok then call_func
           else reply_text up (''You don't have '' @ p @ '' to do this action.'')))
      else if is_both a then
        bind_io (getattr_if_administrator bot_member p) (\<lambda>bot_ok.
          if bot_ok then
            bind_io (owner_or_dev cfg u user_member) (\<lambda>bypass.
              if bypass then call_func
              else bind_io (getattr_else_dragon cfg u user_member p) (\<lambda>ok.
                if ok then call_func
                else reply_text up (''You don't have '' @ p @ '' to do this action.'')))
          else reply_text up (''I don't have '' @ p @ '' to do this action.''))
      else return_io NoneResult)"

text \<open>\<^verbatim>\<open>if permission: ... else: ...\<close>; the empty string is false like \<^verbatim>\<open>None\<close>.\<close>

definition from_permission ::
  "config \<Rightarrow> upstream \<Rightarrow> check_admin_args \<Rightarrow> update \<Rightarrow>
     chat_member option \<Rightarrow> chat_member option \<Rightarrow> returned io" where
  "from_permission cfg up a u bot_member user_member =
     (case permission a of
        Some (c # cs) \<Rightarrow> permission_check cfg up a u (c # cs) bot_member user_member
      | _ \<Rightarrow> plain_check cfg up u bot_member user_member)"

text \<open>\<^verbatim>\<open>if only_sudo: ...\<close> (source lines 64 to 68) and what follows it.\<close>

definition from_only_sudo ::
  "config \<Rightarrow> upstream \<Rightarrow> check_admin_args \<Rightarrow> update \<Rightarrow>
     chat_member option \<Rightarrow> chat_member option \<Rightarrow> returned io" where
  "from_only_sudo cfg up a u bot_member user_member =
     (if only_sudo a then
        bind_io (user_id_of u) (\<lambda>uid.
          if py_in (PyInt uid) [PyCollection (DRAGONS cfg), PyCollection (DEV_USERS cfg)]
          then call_func
          else reply_text up ''Who the hell are you to say me what to do?'')
      else from_permission cfg up a u bot_member user_member)"

text \<open>
  \<^verbatim>\<open>if only_dev: ...\<close> (source lines 56 to 63) and what follows it: the reply of the
  \<^verbatim>\<open>else\<close> branch is awaited without a \<^verbatim>\<open>return\<close>, so control goes on to the next
  statement.
\<close>

definition from_only_dev ::
  "config \<Rightarrow> upstream \<Rightarrow> check_admin_args \<Rightarrow> update \<Rightarrow>
     chat_member option \<Rightarrow> chat_member option \<Rightarrow> returned io" where
  "from_only_dev cfg up a u bot_member user_member =
     (if only_dev a then
        bind_io (user_id_of u) (\<lambda>uid.
          if uid \<in> set (DEV_USERS cfg) then call_func
          else bind_io
            (send up (ReplyText
              ''This is a developer restricted command. You do not have permissions to run this.''))
            (\<lambda>_. from_only_sudo cfg up a u bot_member user_member))
      else from_only_sudo cfg up a u bot_member user_member)"

text \<open>\<^verbatim>\<open>if only_owner: ...\<close> (source lines 51 to 55) and what follows it.\<close>

definition from_only_owner ::
  "config \<Rightarrow> upstream \<Rightarrow> check_admin_args \<Rightarrow> update \<Rightarrow>
     chat_member option \<Rightarrow> chat_member option \<Rightarrow> returned io" where
  "from_only_owner cfg up a u bot_member user_member =
     (if only_owner a then
        bind_io (owner_or_dev cfg u user_member) (\<lambda>ok.
          if ok then call_func
          else reply_text up ''Only chat owner can perform this action.'')
      else from_only_dev cfg up a u bot_member user_member)"

text \<open>
  The wrapped handler that \<^verbatim>\<open>check_admin(...)\<close> puts around a function (source lines
  39 to 113).  The bot's record is fetched for \<^verbatim>\<open>is_bot or is_both\<close>, the user's for
  \<^verbatim>\<open>is_user or is_bot\<close>; a record that is not fetched is \<^verbatim>\<open>None\<close>.
\<close>

definition check_admin :: "config \<Rightarrow> upstream \<Rightarrow> check_admin_args \<Rightarrow> update \<Rightarrow> returned io" where
  "check_admin cfg up a u =
     (if chat_type (effective_chat u) = PRIVATE then call_func
      else
        bind_io
          (if is_bot a \<or> is_both a
           then bind_io (get_member up (effective_chat u) (bot_id u)) (\<lambda>m. return_io (Some m))
           else return_io None)
          (\<lambda>bot_member.
        bind_io
          (if is_user a \<or> is_bot a
           then bind_io (user_id_of u) (\<lambda>uid.
                  bind_io (get_member up (effective_chat u) uid) (\<lambda>m. return_io (Some m)))
           else return_io None)
          (\<lambda>user_member. from_only_owner cfg up a u bot_member user_member)))"

section \<open>Tier predicates and membership tests\<close>

definition is_whitelist_plus :: "config \<Rightarrow> chat \<Rightarrow> user_id \<Rightarrow> bool" where
  "is_whitelist_plus cfg c uid =
     list_ex (\<lambda>tier. uid \<in> set tier) [WOLVES cfg, TIGERS cfg, DEMONS cfg, DRAGONS cfg, DEV_USERS cfg]"

definition is_support_plus :: "config \<Rightarrow> chat \<Rightarrow> user_id \<Rightarrow> bool" where
  "is_support_plus cfg c uid =
     (uid \<in> set (DEMONS cfg) \<or> uid \<in> set (DRAGONS cfg) \<or> uid \<in> set (DEV_USERS cfg))"

definition is_sudo_plus :: "config \<Rightarrow> chat \<Rightarrow> user_id \<Rightarrow> bool" where
  "is_sudo_plus cfg c uid = (uid \<in> set (DRAGONS cfg) \<or> uid \<in> set (DEV_USERS cfg))"

text \<open>
  \<^verbatim>\<open>is_user_admin\<close> (source lines 130 to 153).  The tier test comes first; without a
  member record the cache is read, and a \<^verbatim>\<open>KeyError\<close> leads to the request for the
  administrators, whose identifiers are stored and tested.
\<close>

definition is_user_admin ::
  "config \<Rightarrow> upstream \<Rightarrow> chat \<Rightarrow> user_id \<Rightarrow> chat_member option \<Rightarrow> bool io" where
  "is_user_admin cfg up c uid member =
     (if chat_type c = PRIVATE
         \<or> uid \<in> set (DRAGONS cfg)
         \<or> uid \<in> set (DEV_USERS cfg)
         \<or> uid \<in> set [777000, 1087968824]
      then return_io True
      else
        (case member of
           None \<Rightarrow>
             bind_io (cache_getitem (chat_id c)) (\<lambda>cached.
               case cached of
                 Some admins \<Rightarrow> return_io (uid \<in> set admins)
               | None \<Rightarrow>
                   bind_io (getChatAdministrators up (chat_id c)) (\<lambda>chat_admins.
                     bind_io (cache_setitem (chat_id c) (map fst chat_admins)) (\<lambda>_.
                       return_io (uid \<in> set (map fst chat_admins)))))
         | Some m \<Rightarrow> return_io (status m \<in> set [ADMINISTRATOR, OWNER])))"

text \<open>\<^verbatim>\<open>is_bot_admin\<close> (source lines 156 to 163).\<close>

definition is_bot_admin :: "upstream \<Rightarrow> chat \<Rightarrow> user_id \<Rightarrow> chat_member option \<Rightarrow> bool io" where
  "is_bot_admin up c bid bot_member =
     (if chat_type c = PRIVATE then return_io True
      else
        bind_io (case bot_member of None \<Rightarrow> get_member up c bid | Some m \<Rightarrow> return_io m) (\<lambda>m.
          return_io (status m \<in> set [ADMINISTRATOR, OWNER])))"

text \<open>\<^verbatim>\<open>is_user_ban_protected\<close> (source lines 171 to 185).\<close>

definition is_user_ban_protected ::
  "config \<Rightarrow> upstream \<Rightarrow> chat \<Rightarrow> user_id \<Rightarrow> chat_member option \<Rightarrow> bool io" where
  "is_user_ban_protected cfg up c uid member =
     (if chat_type c = PRIVATE
         \<or> uid \<in> set (DRAGONS cfg)
         \<or> uid \<in> set (DEV_USERS cfg)
         \<or> uid \<in> set (WOLVES cfg)
         \<or> uid \<in> set (TIGERS cfg)
         \<or> uid \<in> set [777000, 1087968824]
      then return_io True
      else
        bind_io (case member of None \<Rightarrow> get_member up c uid | Some m \<Rightarrow> return_io m) (\<lambda>m.
          return_io (status m \<in> set [ADMINISTRATOR, OWNER])))"

text \<open>\<^verbatim>\<open>is_user_in_chat\<close> (source lines 187 to 189).\<close>

definition is_user_in_chat :: "upstream \<Rightarrow> chat \<Rightarrow> user_id \<Rightarrow> bool io" where
  "is_user_in_chat up c uid =
     bind_io (get_member up c uid) (\<lambda>member. return_io (status member \<in> set [LEFT, RESTRICTED]))"

section \<open>The guards \<^verbatim>\<open>user_admin\<close> and \<^verbatim>\<open>can_manage_topics\<close>\<close>

text \<open>
  \<^verbatim>\<open>DEL_CMDS and " " not in update.effective_message.text\<close>: the text is read only when
  the flag is set, and a message without text makes the operator raise.
\<close>

definition del_cmds_and_bare :: "config \<Rightarrow> update \<Rightarrow> bool io" where
  "del_cmds_and_bare cfg u =
     (if DEL_CMDS cfg then
        (case message_text u of
           None \<Rightarrow> raise_io TypeError
         | Some txt \<Rightarrow> return_io (CHR '' '' \<notin> set txt))
      else return_io False)"

text \<open>
  The handler \<^verbatim>\<open>is_admin\<close> that \<^verbatim>\<open>user_admin\<close> puts around a function (source lines
  279 to 296).  An absent user makes \<^verbatim>\<open>user and ...\<close> false without the test; a failed
  deletion is swallowed, so only the attempt is recorded.
\<close>

definition user_admin :: "config \<Rightarrow> upstream \<Rightarrow> update \<Rightarrow> returned io" where
  "user_admin cfg up u =
     bind_io
       (case effective_user u of
          None \<Rightarrow> return_io False
        | Some uid \<Rightarrow> is_user_admin cfg up (effective_chat u) uid None)
       (\<lambda>admin.
          if admin then call_func
          else if effective_user u = None then return_io NoneResult
          else
            bind_io (del_cmds_and_bare cfg u) (\<lambda>bare.
              if bare then bind_io (send up DeleteMessage) (\<lambda>_. return_io NoneResult)
              else
                bind_io (send up (ReplyText ''Who the hell are you to say me what to do?''))
                  (\<lambda>_. return_io NoneResult)))"

text \<open>The string Python formats an optional title to.\<close>

definition py_str :: "string option \<Rightarrow> string" where
  "py_str t = (case t of None \<Rightarrow> ''None'' | Some s \<Rightarrow> s)"

definition cant_manage_topics :: "update \<Rightarrow> string" where
  "cant_manage_topics u =
     (if chat_title (effective_chat u) = message_chat_title u
      then ''I can't manage topics here!'' @ [CHR 0x0A] @ ''Make sure I'm admin and can manage topics.''
      else ''I can't manage topics in <b>'' @ py_str (chat_title (effective_chat u)) @ ''</b>!''
           @ [CHR 0x0A] @ ''Make sure I'm admin there and can manage topics.'')"

text \<open>
  The handler \<^verbatim>\<open>topics_rights\<close> that \<^verbatim>\<open>can_manage_topics\<close> puts around a function
  (source lines 459 to 478).  The attribute read is \<^verbatim>\<open>can_restrict_members\<close>.
\<close>

definition can_manage_topics :: "upstream \<Rightarrow> update \<Rightarrow> returned io" where
  "can_manage_topics up u =
     bind_io (get_member up (effective_chat u) (bot_id u)) (\<lambda>bot_member.
       case bot_member of
         ChatMemberAdministrator attrs \<Rightarrow>
           (case map_of attrs ''can_restrict_members'' of
              None \<Rightarrow> raise_io AttributeError
            | Some flag \<Rightarrow>
                if flag then call_func
                else bind_io (send up (ReplyHTML (cant_manage_topics u))) (\<lambda>_. return_io NoneResult))
       | _ \<Rightarrow> return_io NoneResult)"

section \<open>Sample inputs\<close>

definition no_tiers :: config where
  "no_tiers = \<lparr>DEL_CMDS = False, DEMONS = [], DEV_USERS = [], DRAGONS = [],
     SUPPORT_CHAT = ''support'', TIGERS = [], WOLVES = []\<rparr>"

definition group_chat :: chat where
  "group_chat = \<lparr>chat_id = -100, chat_type = SUPERGROUP, chat_title = Some ''group''\<rparr>"

text \<open>A command of user 7 in the group; the bot is user 1.\<close>

definition command :: update where
  "command = \<lparr>effective_chat = group_chat, effective_user = Some 7,
     message_text = Some ''/cmd'', message_chat_title = Some ''group'', bot_id = 1\<rparr>"

definition fresh :: world where
  "fresh = \<lparr>admin_cache = [], now = 0, trace = []\<rparr>"

definition no_flags :: check_admin_args where
  "no_flags = \<lparr>permission = None, is_bot = False, is_user = False, is_both = False,
     only_owner = False, only_sudo = False, only_dev = False\<rparr>"

text \<open>A platform where the bot is an administrator with every listed right and user 7 has the given record.\<close>

definition platform :: "chat_member \<Rightarrow> upstream" where
  "platform m = \<lparr>
     chat_get_member = (\<lambda>cid uid.
        if uid = 1 then Inr (ChatMemberAdministrator
           [(''can_restrict_members'', True), (''can_manage_topics'', True)])
        else if uid = 7 then Inr m else Inr ChatMemberLeft),
     bot_getChatAdministrators = (\<lambda>cid. Inr [(1, ChatMemberAdministrator []), (2, ChatMemberOwner)]),
     latency = 1\<rparr>"

text \<open>A platform whose every request fails.\<close>

definition unavailable :: upstream where
  "unavailable = \<lparr>chat_get_member = (\<lambda>cid uid. Inl TelegramError),
     bot_getChatAdministrators = (\<lambda>cid. Inl TelegramError), latency = 1\<rparr>"

text \<open>A platform where every member record is an administrator record with the given attributes.\<close>

definition platform_rights :: "(string \<times> bool) list \<Rightarrow> upstream" where
  "platform_rights attrs = \<lparr>chat_get_member = (\<lambda>cid uid. Inr (ChatMemberAdministrator attrs)),
     bot_getChatAdministrators = (\<lambda>cid. Inr []), latency = 1\<rparr>"

text \<open>A cache with 512 entries, for the chats 0 to 511, none of them expired before time 1000.\<close>

definition full_cache :: ttl_cache where
  "full_cache = map (\<lambda>i. \<lparr>entry_key = int i, entry_value = [], expires = 1000\<rparr>) [0..<512]"

text \<open>A cache with entries for the chats 5 and 6, chat 5 the least recently used.\<close>

definition two_chats :: ttl_cache where
  "two_chats = [\<lparr>entry_key = 5, entry_value = [9], expires = 10\<rparr>,
                \<lparr>entry_key = 6, entry_value = [], expires = 10\<rparr>]"

section \<open>Unfolding rules\<close>

lemmas io_defs = return_io_def raise_io_def bind_io_def request_def get_member_def
  getChatAdministrators_def send_def reply_text_def call_func_def user_id_of_def
  cache_getitem_def cache_setitem_def

lemmas sample_defs = no_tiers_def group_chat_def command_def fresh_def no_flags_def
  platform_def unavailable_def platform_rights_def

lemmas check_admin_defs = check_admin_def from_only_owner_def from_only_dev_def
  from_only_sudo_def from_permission_def permission_check_def plain_check_def status_of_def
  owner_or_dev_def getattr_else_dragon_def getattr_if_administrator_def py_in_def

section \<open>The claims about \<^verbatim>\<open>check_admin\<close>\<close>

text \<open>
  Claim C1 says that the plain administrator check (no permission named) invokes the
  wrapped function when the bot is an administrator and the user is an administrator
  or the owner.  The source has no call of the function after the two tests (lines 102
  to 113 end the handler).  Evaluated in a supergroup where the bot is an administrator
  and user 7 is the owner, with both records fetched (\<open>is_bot\<close>), the handler fetches the
  two records and returns \<^verbatim>\<open>None\<close>: the function is not invoked.
\<close>

theorem plain_check_does_not_invoke:
  "chat_type (effective_chat command) \<noteq> PRIVATE
   \<and> chat_get_member (platform ChatMemberOwner) (chat_id (effective_chat command)) (bot_id command)
       = Inr (ChatMemberAdministrator [(''can_restrict_members'', True), (''can_manage_topics'', True)])
   \<and> chat_get_member (platform ChatMemberOwner) (chat_id (effective_chat command)) 7
       = Inr ChatMemberOwner
   \<and> check_admin no_tiers (platform ChatMemberOwner) (no_flags\<lparr>is_bot := True\<rparr>) command fresh
     = (Inr NoneResult,
        \<lparr>admin_cache = [], now = 2, trace = [GetMember (- 100) 1, GetMember (- 100) 7]\<rparr>)"
  by (simp add: check_admin_defs io_defs sample_defs)

text \<open>
  Claim C2 says that with \<open>only_sudo\<close> every user of the sudo or developer list is let
  through.  The source tests \<^verbatim>\<open>user.id in [DRAGONS, DEV_USERS]\<close>, which compares the
  integer with the two lists themselves.  Evaluated for user 7, who is in \<open>DRAGONS\<close>, the
  handler answers with the sudo-only reply and does not invoke the function.
\<close>

theorem only_sudo_denies_dragon:
  "is_sudo_plus (no_tiers\<lparr>DRAGONS := [7]\<rparr>) group_chat 7 \<and>
   check_admin (no_tiers\<lparr>DRAGONS := [7]\<rparr>) (platform ChatMemberMember)
       (no_flags\<lparr>only_sudo := True\<rparr>) command fresh
     = (Inr ReplyResult,
        \<lparr>admin_cache = [], now = 1,
           trace = [ReplyText ''Who the hell are you to say me what to do?'']\<rparr>)"
  by (simp add: check_admin_defs io_defs sample_defs is_sudo_plus_def)

text \<open>
  Claim C3 says that with a permission named and \<open>is_user\<close> a user of the sudo or
  developer list who is not an administrator is let through.  The source tests
  \<^verbatim>\<open>user.id in DRAGONS\<close> only, and only for a record that is not an administrator
  record.  Evaluated for user 7, a regular member who is in \<open>DEV_USERS\<close>, the handler
  answers with the user-side denial.
\<close>

theorem user_permission_denies_developer:
  "is_sudo_plus (no_tiers\<lparr>DEV_USERS := [7]\<rparr>) group_chat 7 \<and>
   check_admin (no_tiers\<lparr>DEV_USERS := [7]\<rparr>) (platform ChatMemberMember)
      (no_flags\<lparr>permission := Some ''can_restrict_members'', is_user := True\<rparr>) command fresh
     = (Inr ReplyResult, \<lparr>admin_cache = [], now = 2,
          trace = [GetMember (- 100) 7, ReplyText ''You don't have can_restrict_members to do this action.'']\<rparr>)"
  by (simp add: check_admin_defs io_defs sample_defs is_sudo_plus_def)

text \<open>
  Claim C6 says that a denial by the \<open>only_dev\<close> rule ends the evaluation.  In the
  source the reply of that branch has no \<^verbatim>\<open>return\<close>.  Evaluated for the chat owner,
  user 7, who is not a developer: with a permission named and \<open>is_user\<close> the handler
  sends the developer-only reply and then invokes the function; with \<open>only_dev\<close> alone
  it sends the reply and then fails on the status of the bot's record, which was not
  fetched.
\<close>

theorem only_dev_denial_falls_through:
  "7 \<notin> set (DEV_USERS no_tiers) \<and>
   check_admin no_tiers (platform ChatMemberOwner)
      (no_flags\<lparr>permission := Some ''can_restrict_members'', is_user := True, only_dev := True\<rparr>)
      command fresh
     = (Inr FuncResult, \<lparr>admin_cache = [], now = 2,
          trace = [GetMember (- 100) 7,
            ReplyText ''This is a developer restricted command. You do not have permissions to run this.'']\<rparr>)
   \<and> check_admin no_tiers (platform ChatMemberOwner) (no_flags\<lparr>only_dev := True\<rparr>) command fresh
     = (Inl AttributeError, \<lparr>admin_cache = [], now = 1,
          trace = [ReplyText
            ''This is a developer restricted command. You do not have permissions to run this.'']\<rparr>)"
  by (simp add: check_admin_defs io_defs sample_defs)

subsection \<open>The same rules for every input\<close>

lemma bind_io_invoked:
  "fst (bind_io m f w) = Inr FuncResult \<Longrightarrow> \<exists>x w'. m w = (Inr x, w') \<and> fst (f x w') = Inr FuncResult"
  by (auto simp add: bind_io_def split: prod.splits sum.splits)

lemma reply_text_not_invoked: "fst (reply_text up s w) \<noteq> Inr FuncResult"
  by (simp add: reply_text_def io_defs)

lemma plain_check_not_invoked: "fst (plain_check cfg up u b m w) \<noteq> Inr FuncResult"
  by (auto simp add: plain_check_def status_of_def io_defs split: option.splits sum.splits prod.splits)

lemma from_only_sudo_denies:
  "only_sudo a \<Longrightarrow> fst (from_only_sudo cfg up a u b m w) \<noteq> Inr FuncResult"
  by (auto simp add: from_only_sudo_def py_in_def io_defs split: option.splits)

text \<open>
  Outside a private chat the plain check never invokes the function, whatever the
  records are: the handler ends after its two tests.
\<close>

lemma check_admin_plain_never_invokes:
  assumes "chat_type (effective_chat u) \<noteq> PRIVATE"
    and "\<not> only_owner a" and "\<not> only_dev a" and "\<not> only_sudo a"
    and "permission a = None \<or> permission a = Some []"
  shows "fst (check_admin cfg up a u w) \<noteq> Inr FuncResult"
proof
  assume inv: "fst (check_admin cfg up a u w) = Inr FuncResult"
  have rest: "from_only_owner cfg up a u b m = plain_check cfg up u b m" for b m
    using assms by (auto simp add: from_only_owner_def from_only_dev_def from_only_sudo_def from_permission_def)
  from inv assms(1) obtain b w1 m w2 where "fst (plain_check cfg up u b m w2) = Inr FuncResult"
    unfolding check_admin_def rest
    by (auto dest!: bind_io_invoked)
  with plain_check_not_invoked show False by blast
qed

text \<open>Outside a private chat the \<open>only_sudo\<close> rule lets nobody through.\<close>

lemma check_admin_only_sudo_never_invokes:
  assumes "chat_type (effective_chat u) \<noteq> PRIVATE"
    and "\<not> only_owner a" and "\<not> only_dev a" and "only_sudo a"
  shows "fst (check_admin cfg up a u w) \<noteq> Inr FuncResult"
proof
  assume inv: "fst (check_admin cfg up a u w) = Inr FuncResult"
  have rest: "from_only_owner cfg up a u b m = from_only_sudo cfg up a u b m" for b m
    using assms by (simp add: from_only_owner_def from_only_dev_def)
  from inv assms(1) obtain b w1 m w2 where "fst (from_only_sudo cfg up a u b m w2) = Inr FuncResult"
    unfolding check_admin_def rest
    by (auto dest!: bind_io_invoked)
  with from_only_sudo_denies [OF assms(4)] show False by blast
qed

text \<open>In a private chat the function is invoked at once.\<close>

lemma check_admin_private:
  "chat_type (effective_chat u) = PRIVATE \<Longrightarrow> check_admin cfg up a u w = (Inr FuncResult, w)"
  by (simp add: check_admin_def io_defs)

text \<open>
  The user-only permission rule: the function is invoked for the owner, for an
  administrator whose attribute is set, and for a user of \<open>DRAGONS\<close> whose record is
  neither the owner's nor an administrator's.
\<close>

lemma check_admin_user_permission:
  assumes "chat_type (effective_chat u) \<noteq> PRIVATE"
    and "\<not> only_owner a" and "\<not> only_dev a" and "\<not> only_sudo a"
    and "permission a = Some p" and "p \<noteq> []" and "\<not> is_bot a" and "\<not> is_both a" and "is_user a"
    and "effective_user u = Some uid"
    and "chat_get_member up (chat_id (effective_chat u)) uid = Inr m"
  shows "(fst (check_admin cfg up a u w) = Inr FuncResult) =
           (m = ChatMemberOwner
            \<or> (\<exists>attrs. m = ChatMemberAdministrator attrs \<and> map_of attrs p = Some True)
            \<or> (status m \<noteq> OWNER \<and> status m \<noteq> ADMINISTRATOR \<and> uid \<in> set (DRAGONS cfg)))"
proof -
  obtain c cs where p: "p = c # cs" using assms(6) by (cases p) auto
  show ?thesis
    using assms(1-5,7-11) unfolding p
    by (cases m) (auto simp add: check_admin_defs io_defs split: option.splits)
qed

section \<open>The claims about the membership tests\<close>

text \<open>
  Claim C4: for a user of the developer list, of the sudo list, or one of the two
  platform identifiers 777000 and 1087968824, \<open>is_user_admin\<close> returns \<^verbatim>\<open>True\<close> in
  every chat, for every state of the cache and every platform (also one whose
  requests fail), whether or not a member record is supplied; the process state is
  returned as it was, so no request is sent and the cache is neither read nor written.
\<close>

theorem is_user_admin_privileged:
  assumes "uid \<in> set (DEV_USERS cfg) \<or> uid \<in> set (DRAGONS cfg) \<or> uid = 777000 \<or> uid = 1087968824"
  shows "is_user_admin cfg up c uid member w = (Inr True, w)"
  using assms by (auto simp add: is_user_admin_def return_io_def)

theorem is_user_admin_privileged_witness:
  "7 \<in> set (DEV_USERS (no_tiers\<lparr>DEV_USERS := [7]\<rparr>)) \<and>
   is_user_admin (no_tiers\<lparr>DEV_USERS := [7]\<rparr>) unavailable group_chat 7 None fresh = (Inr True, fresh)"
  using is_user_admin_privileged [of 7 "no_tiers\<lparr>DEV_USERS := [7]\<rparr>" unavailable group_chat None fresh]
  by (simp add: no_tiers_def)

text \<open>
  Claim C10: \<open>is_user_in_chat\<close> fetches the member record and returns \<^verbatim>\<open>True\<close> exactly
  when its status is left or restricted, so it is \<^verbatim>\<open>False\<close> for a regular member, an
  administrator and the owner.
\<close>

theorem is_user_in_chat_left_or_restricted:
  assumes "chat_get_member up (chat_id c) uid = Inr m"
  shows "is_user_in_chat up c uid w =
           (Inr (status m = LEFT \<or> status m = RESTRICTED),
            w\<lparr>now := now w + latency up, trace := trace w @ [GetMember (chat_id c) uid]\<rparr>)
         \<and> (fst (is_user_in_chat up c uid w) = Inr True) = (m = ChatMemberLeft \<or> m = ChatMemberRestricted)"
  using assms by (cases m) (simp_all add: is_user_in_chat_def io_defs)

theorem is_user_in_chat_left_or_restricted_witness:
  "chat_get_member (platform ChatMemberLeft) (chat_id group_chat) 7 = Inr ChatMemberLeft
   \<and> fst (is_user_in_chat (platform ChatMemberLeft) group_chat 7 fresh) = Inr True
   \<and> chat_get_member (platform ChatMemberMember) (chat_id group_chat) 7 = Inr ChatMemberMember
   \<and> fst (is_user_in_chat (platform ChatMemberMember) group_chat 7 fresh) = Inr False"
  using is_user_in_chat_left_or_restricted [of "platform ChatMemberLeft" group_chat 7 ChatMemberLeft fresh]
    is_user_in_chat_left_or_restricted [of "platform ChatMemberMember" group_chat 7 ChatMemberMember fresh]
  by (simp add: platform_def)

text \<open>
  Claim C7, as stated, lists the cases in which \<open>is_user_ban_protected\<close> answers
  \<^verbatim>\<open>True\<close> without looking at the membership (private chat, developer or sudo list,
  the two whitelist lists) and says that every other user gets the result of the
  status test.  The source also lists the two platform identifiers.  For user 777000,
  who is in no list, in a supergroup, with the record of a regular member supplied,
  the status test is false and the function returns \<^verbatim>\<open>True\<close>.
\<close>

theorem ban_protected_pseudo_user_counterexample:
  "chat_type group_chat \<noteq> PRIVATE
   \<and> 777000 \<notin> set (DRAGONS no_tiers) \<and> 777000 \<notin> set (DEV_USERS no_tiers)
   \<and> 777000 \<notin> set (WOLVES no_tiers) \<and> 777000 \<notin> set (TIGERS no_tiers)
   \<and> status ChatMemberMember \<noteq> ADMINISTRATOR \<and> status ChatMemberMember \<noteq> OWNER
   \<and> is_user_ban_protected no_tiers (platform ChatMemberMember) group_chat 777000
        (Some ChatMemberMember) fresh = (Inr True, fresh)"
  by (simp add: is_user_ban_protected_def io_defs sample_defs)

text \<open>The function, with the effects written out.\<close>

lemma is_user_ban_protected_eq:
  "is_user_ban_protected cfg up c uid member w =
     (if chat_type c = PRIVATE \<or> uid \<in> set (DRAGONS cfg) \<or> uid \<in> set (DEV_USERS cfg)
         \<or> uid \<in> set (WOLVES cfg) \<or> uid \<in> set (TIGERS cfg) \<or> uid = 777000 \<or> uid = 1087968824
      then (Inr True, w)
      else (case member of
              Some m \<Rightarrow> (Inr (status m = ADMINISTRATOR \<or> status m = OWNER), w)
            | None \<Rightarrow>
                (case chat_get_member up (chat_id c) uid of
                   Inl e \<Rightarrow> (Inl e, w\<lparr>now := now w + latency up,
                                 trace := trace w @ [GetMember (chat_id c) uid]\<rparr>)
                 | Inr m \<Rightarrow> (Inr (status m = ADMINISTRATOR \<or> status m = OWNER),
                             w\<lparr>now := now w + latency up,
                               trace := trace w @ [GetMember (chat_id c) uid]\<rparr>))))"
  by (simp add: is_user_ban_protected_def io_defs split: option.splits sum.splits)

text \<open>
  Claim C7 as amended: \<open>is_user_ban_protected\<close> returns \<^verbatim>\<open>True\<close>, sending nothing, for
  a private chat, a user of the sudo, developer, \<open>WOLVES\<close> or \<open>TIGERS\<close> list, and the
  platform identifiers 777000 and 1087968824; for every other user it returns whether
  the status of the supplied record, or else of the freshly fetched one, is
  administrator or owner (a failed fetch is raised); and the cache is neither written
  (it is the same afterwards) nor read (another cache gives the same run).
\<close>

theorem is_user_ban_protected_rule:
  "(chat_type c = PRIVATE \<or> uid \<in> set (DRAGONS cfg) \<or> uid \<in> set (DEV_USERS cfg)
       \<or> uid \<in> set (WOLVES cfg) \<or> uid \<in> set (TIGERS cfg) \<or> uid = 777000 \<or> uid = 1087968824
     \<longrightarrow> is_user_ban_protected cfg up c uid member w = (Inr True, w))
   \<and> (\<not> (chat_type c = PRIVATE \<or> uid \<in> set (DRAGONS cfg) \<or> uid \<in> set (DEV_USERS cfg)
       \<or> uid \<in> set (WOLVES cfg) \<or> uid \<in> set (TIGERS cfg) \<or> uid = 777000 \<or> uid = 1087968824)
     \<longrightarrow> (\<forall>m. member = Some m \<longrightarrow>
            is_user_ban_protected cfg up c uid member w
              = (Inr (status m = ADMINISTRATOR \<or> status m = OWNER), w))
       \<and> (\<forall>m. member = None \<and> chat_get_member up (chat_id c) uid = Inr m \<longrightarrow>
            is_user_ban_protected cfg up c uid member w
              = (Inr (status m = ADMINISTRATOR \<or> status m = OWNER),
                 w\<lparr>now := now w + latency up, trace := trace w @ [GetMember (chat_id c) uid]\<rparr>))
       \<and> (\<forall>e. member = None \<and> chat_get_member up (chat_id c) uid = Inl e \<longrightarrow>
            is_user_ban_protected cfg up c uid member w
              = (Inl e, w\<lparr>now := now w + latency up, trace := trace w @ [GetMember (chat_id c) uid]\<rparr>)))
   \<and> admin_cache (snd (is_user_ban_protected cfg up c uid member w)) = admin_cache w
   \<and> (\<forall>cache. is_user_ban_protected cfg up c uid member (w\<lparr>admin_cache := cache\<rparr>)
         = (fst (is_user_ban_protected cfg up c uid member w),
            (snd (is_user_ban_protected cfg up c uid member w))\<lparr>admin_cache := cache\<rparr>))"
  unfolding is_user_ban_protected_eq
  by (simp split: option.splits sum.splits)

theorem is_user_ban_protected_rule_witness:
  "is_user_ban_protected no_tiers (platform ChatMemberMember) group_chat 777000 None fresh = (Inr True, fresh)
   \<and> is_user_ban_protected (no_tiers\<lparr>WOLVES := [7]\<rparr>) unavailable group_chat 7 None fresh = (Inr True, fresh)
   \<and> is_user_ban_protected no_tiers (platform ChatMemberMember) group_chat 7 (Some ChatMemberOwner) fresh
       = (Inr True, fresh)
   \<and> is_user_ban_protected no_tiers (platform ChatMemberMember) group_chat 7 None fresh
       = (Inr False, \<lparr>admin_cache = [], now = 1, trace = [GetMember (- 100) 7]\<rparr>)
   \<and> is_user_ban_protected no_tiers unavailable group_chat 7 None fresh
       = (Inl TelegramError, \<lparr>admin_cache = [], now = 1, trace = [GetMember (- 100) 7]\<rparr>)"
proof -
  have a: "is_user_ban_protected no_tiers (platform ChatMemberMember) group_chat 777000 None fresh = (Inr True, fresh)"
    by (rule is_user_ban_protected_rule [THEN conjunct1, rule_format]) simp
  have b: "is_user_ban_protected (no_tiers\<lparr>WOLVES := [7]\<rparr>) unavailable group_chat 7 None fresh = (Inr True, fresh)"
    by (rule is_user_ban_protected_rule [THEN conjunct1, rule_format]) simp
  have other: "\<not> (chat_type group_chat = PRIVATE \<or> 7 \<in> set (DRAGONS no_tiers) \<or> 7 \<in> set (DEV_USERS no_tiers)
       \<or> 7 \<in> set (WOLVES no_tiers) \<or> 7 \<in> set (TIGERS no_tiers) \<or> (7::int) = 777000 \<or> (7::int) = 1087968824)"
    by (simp add: sample_defs)
  have c: "is_user_ban_protected no_tiers (platform ChatMemberMember) group_chat 7 (Some ChatMemberOwner) fresh
       = (Inr True, fresh)"
    using is_user_ban_protected_rule [THEN conjunct2, THEN conjunct1, rule_format, OF other,
      THEN conjunct1, rule_format, of "Some ChatMemberOwner" ChatMemberOwner "platform ChatMemberMember" fresh]
    by simp
  have d: "is_user_ban_protected no_tiers (platform ChatMemberMember) group_chat 7 None fresh
       = (Inr False, \<lparr>admin_cache = [], now = 1, trace = [GetMember (- 100) 7]\<rparr>)"
    using is_user_ban_protected_rule [THEN conjunct2, THEN conjunct1, rule_format, OF other,
      THEN conjunct2, THEN conjunct1, rule_format, of None "platform ChatMemberMember" ChatMemberMember fresh]
    by (simp add: sample_defs)
  have e: "is_user_ban_protected no_tiers unavailable group_chat 7 None fresh
       = (Inl TelegramError, \<lparr>admin_cache = [], now = 1, trace = [GetMember (- 100) 7]\<rparr>)"
    using is_user_ban_protected_rule [THEN conjunct2, THEN conjunct1, rule_format, OF other,
      THEN conjunct2, THEN conjunct2, rule_format, of None unavailable TelegramError fresh]
    by (simp add: sample_defs)
  from a b c d e show ?thesis by blast
qed

text \<open>A lookup that misses leaves the cache as it is.\<close>

lemma cache_lookup_miss:
  "fst (cache_lookup t c k) = None \<Longrightarrow> cache_lookup t c k = (None, c)"
  by (simp add: cache_lookup_def split: option.splits)

text \<open>
  Claim C8: for a user who is not privileged, in a chat that is not private, when the
  lookup misses and the request for the administrators fails with \<open>e\<close>, the error
  \<open>e\<close> is what \<open>is_user_admin\<close> raises, the cache afterwards is the cache before, and
  the handler of \<open>user_admin\<close> for an update of that user in that chat raises \<open>e\<close> as
  well: it neither invokes the function nor sends a reply.
\<close>

theorem admin_fetch_failure_propagates:
  assumes "chat_type c \<noteq> PRIVATE"
    and "uid \<notin> set (DRAGONS cfg)" and "uid \<notin> set (DEV_USERS cfg)"
    and "uid \<noteq> 777000" and "uid \<noteq> 1087968824"
    and miss: "fst (cache_lookup (now w) (admin_cache w) (chat_id c)) = None"
    and fail: "bot_getChatAdministrators up (chat_id c) = Inl e"
  shows "is_user_admin cfg up c uid None w
           = (Inl e, w\<lparr>now := now w + latency up, trace := trace w @ [GetChatAdministrators (chat_id c)]\<rparr>)
         \<and> admin_cache (snd (is_user_admin cfg up c uid None w)) = admin_cache w
         \<and> (effective_chat u = c \<and> effective_user u = Some uid \<longrightarrow>
              user_admin cfg up u w
                = (Inl e, w\<lparr>now := now w + latency up, trace := trace w @ [GetChatAdministrators (chat_id c)]\<rparr>))"
proof -
  have 1: "is_user_admin cfg up c uid None w
           = (Inl e, w\<lparr>now := now w + latency up, trace := trace w @ [GetChatAdministrators (chat_id c)]\<rparr>)"
    using assms(1-5) fail cache_lookup_miss [OF miss]
    by (simp add: is_user_admin_def io_defs)
  then show ?thesis
    by (simp add: user_admin_def bind_io_def)
qed

theorem admin_fetch_failure_propagates_witness:
  "chat_type group_chat \<noteq> PRIVATE \<and> 7 \<notin> set (DRAGONS no_tiers) \<and> 7 \<notin> set (DEV_USERS no_tiers)
   \<and> fst (cache_lookup (now fresh) (admin_cache fresh) (chat_id group_chat)) = None
   \<and> bot_getChatAdministrators unavailable (chat_id group_chat) = Inl TelegramError
   \<and> is_user_admin no_tiers unavailable group_chat 7 None fresh
       = (Inl TelegramError, \<lparr>admin_cache = [], now = 1, trace = [GetChatAdministrators (- 100)]\<rparr>)
   \<and> user_admin no_tiers unavailable command fresh
       = (Inl TelegramError, \<lparr>admin_cache = [], now = 1, trace = [GetChatAdministrators (- 100)]\<rparr>)"
proof -
  have h1: "chat_type group_chat \<noteq> PRIVATE" by (simp add: group_chat_def)
  have h2: "7 \<notin> set (DRAGONS no_tiers)" by (simp add: no_tiers_def)
  have h3: "7 \<notin> set (DEV_USERS no_tiers)" by (simp add: no_tiers_def)
  have h4: "(7::int) \<noteq> 777000" by simp
  have h5: "(7::int) \<noteq> 1087968824" by simp
  have h6: "fst (cache_lookup (now fresh) (admin_cache fresh) (chat_id group_chat)) = None"
    by (simp add: fresh_def cache_lookup_def cache_find_def)
  have h7: "bot_getChatAdministrators unavailable (chat_id group_chat) = Inl TelegramError"
    by (simp add: unavailable_def)
  note t = admin_fetch_failure_propagates [OF h1 h2 h3 h4 h5 h6 h7, of command]
  have a: "is_user_admin no_tiers unavailable group_chat 7 None fresh
       = (Inl TelegramError, \<lparr>admin_cache = [], now = 1, trace = [GetChatAdministrators (- 100)]\<rparr>)"
    using t [THEN conjunct1] by (simp add: sample_defs)
  have b: "user_admin no_tiers unavailable command fresh
       = (Inl TelegramError, \<lparr>admin_cache = [], now = 1, trace = [GetChatAdministrators (- 100)]\<rparr>)"
    using t [THEN conjunct2, THEN conjunct2] by (simp add: sample_defs)
  from h1 h2 h3 h6 h7 a b show ?thesis by blast
qed

section \<open>The claim about \<^verbatim>\<open>can_manage_topics\<close>\<close>

text \<open>The handler, with the effects written out.\<close>

lemma can_manage_topics_eq:
  "can_manage_topics up u w =
     (case chat_get_member up (chat_id (effective_chat u)) (bot_id u) of
        Inl e \<Rightarrow> (Inl e, w\<lparr>now := now w + latency up,
                      trace := trace w @ [GetMember (chat_id (effective_chat u)) (bot_id u)]\<rparr>)
      | Inr (ChatMemberAdministrator attrs) \<Rightarrow>
          (case map_of attrs ''can_restrict_members'' of
             None \<Rightarrow> (Inl AttributeError, w\<lparr>now := now w + latency up,
                      trace := trace w @ [GetMember (chat_id (effective_chat u)) (bot_id u)]\<rparr>)
           | Some True \<Rightarrow> (Inr FuncResult, w\<lparr>now := now w + latency up,
                      trace := trace w @ [GetMember (chat_id (effective_chat u)) (bot_id u)]\<rparr>)
           | Some False \<Rightarrow> (Inr NoneResult, w\<lparr>now := now w + latency up + latency up,
                      trace := trace w @ [GetMember (chat_id (effective_chat u)) (bot_id u),
                                 ReplyHTML (cant_manage_topics u)]\<rparr>))
      | Inr _ \<Rightarrow> (Inr NoneResult, w\<lparr>now := now w + latency up,
                      trace := trace w @ [GetMember (chat_id (effective_chat u)) (bot_id u)]\<rparr>))"
  by (simp add: can_manage_topics_def io_defs split: sum.splits chat_member.splits option.splits bool.splits)

text \<open>
  Claim C9: \<open>can_manage_topics\<close> invokes the function exactly when the bot's record is
  an administrator record whose attribute \<^verbatim>\<open>can_restrict_members\<close> is set; when the bot
  is not an administrator it sends no reply and returns \<^verbatim>\<open>None\<close> after the fetch; and
  two administrator records that agree on \<^verbatim>\<open>can_restrict_members\<close> give the same run,
  whatever their other attributes (\<^verbatim>\<open>can_manage_topics\<close> among them) are.
\<close>

theorem can_manage_topics_reads_restrict_members:
  "(fst (can_manage_topics up u w) = Inr FuncResult) =
     (\<exists>attrs. chat_get_member up (chat_id (effective_chat u)) (bot_id u) = Inr (ChatMemberAdministrator attrs)
        \<and> map_of attrs ''can_restrict_members'' = Some True)
   \<and> (\<forall>m. chat_get_member up (chat_id (effective_chat u)) (bot_id u) = Inr m \<and> status m \<noteq> ADMINISTRATOR \<longrightarrow>
         can_manage_topics up u w =
           (Inr NoneResult, w\<lparr>now := now w + latency up,
              trace := trace w @ [GetMember (chat_id (effective_chat u)) (bot_id u)]\<rparr>))
   \<and> (\<forall>(up' :: upstream) attrs attrs'.
         chat_get_member up (chat_id (effective_chat u)) (bot_id u) = Inr (ChatMemberAdministrator attrs)
         \<and> chat_get_member up' (chat_id (effective_chat u)) (bot_id u) = Inr (ChatMemberAdministrator attrs')
         \<and> map_of attrs ''can_restrict_members'' = map_of attrs' ''can_restrict_members''
         \<and> latency up' = latency up \<longrightarrow>
         can_manage_topics up' u w = can_manage_topics up u w)"
proof (intro conjI allI impI)
  show "(fst (can_manage_topics up u w) = Inr FuncResult) =
     (\<exists>attrs. chat_get_member up (chat_id (effective_chat u)) (bot_id u) = Inr (ChatMemberAdministrator attrs)
        \<and> map_of attrs ''can_restrict_members'' = Some True)"
    unfolding can_manage_topics_eq
    by (simp split: sum.splits chat_member.splits option.splits bool.splits)
next
  fix m
  assume "chat_get_member up (chat_id (effective_chat u)) (bot_id u) = Inr m \<and> status m \<noteq> ADMINISTRATOR"
  then show "can_manage_topics up u w =
           (Inr NoneResult, w\<lparr>now := now w + latency up,
              trace := trace w @ [GetMember (chat_id (effective_chat u)) (bot_id u)]\<rparr>)"
    unfolding can_manage_topics_eq by (cases m) simp_all
next
  fix up' :: upstream and attrs attrs'
  assume "chat_get_member up (chat_id (effective_chat u)) (bot_id u) = Inr (ChatMemberAdministrator attrs)
         \<and> chat_get_member up' (chat_id (effective_chat u)) (bot_id u) = Inr (ChatMemberAdministrator attrs')
         \<and> map_of attrs ''can_restrict_members'' = map_of attrs' ''can_restrict_members''
         \<and> latency up' = latency up"
  then show "can_manage_topics up' u w = can_manage_topics up u w"
    unfolding can_manage_topics_eq by (simp split: option.splits bool.splits)
qed

theorem can_manage_topics_reads_restrict_members_witness:
  "fst (can_manage_topics (platform_rights [(''can_restrict_members'', True), (''can_manage_topics'', False)]) command fresh)
      = Inr FuncResult
   \<and> chat_get_member (platform ChatMemberOwner) (chat_id (effective_chat (command\<lparr>bot_id := 7\<rparr>))) (bot_id (command\<lparr>bot_id := 7\<rparr>)) = Inr ChatMemberOwner
   \<and> status ChatMemberOwner \<noteq> ADMINISTRATOR
   \<and> can_manage_topics (platform ChatMemberOwner) (command\<lparr>bot_id := 7\<rparr>) fresh
      = (Inr NoneResult, \<lparr>admin_cache = [], now = 1, trace = [GetMember (- 100) 7]\<rparr>)
   \<and> can_manage_topics (platform_rights [(''can_restrict_members'', False), (''can_manage_topics'', True)]) command fresh
      = can_manage_topics (platform_rights [(''can_restrict_members'', False), (''can_manage_topics'', False)]) command fresh
   \<and> fst (can_manage_topics (platform_rights [(''can_restrict_members'', False), (''can_manage_topics'', True)]) command fresh)
      \<noteq> Inr FuncResult"
proof -
  let ?on = "platform_rights [(''can_restrict_members'', True), (''can_manage_topics'', False)]"
  let ?off = "platform_rights [(''can_restrict_members'', False), (''can_manage_topics'', False)]"
  let ?topics = "platform_rights [(''can_restrict_members'', False), (''can_manage_topics'', True)]"
  have a: "fst (can_manage_topics ?on command fresh) = Inr FuncResult"
    unfolding can_manage_topics_reads_restrict_members [of ?on command fresh, THEN conjunct1]
    by (simp add: platform_rights_def)
  have b1: "chat_get_member (platform ChatMemberOwner) (chat_id (effective_chat (command\<lparr>bot_id := 7\<rparr>)))
      (bot_id (command\<lparr>bot_id := 7\<rparr>)) = Inr ChatMemberOwner"
    by (simp add: sample_defs)
  have b2: "status ChatMemberOwner \<noteq> ADMINISTRATOR"
    by simp
  have b: "can_manage_topics (platform ChatMemberOwner) (command\<lparr>bot_id := 7\<rparr>) fresh
      = (Inr NoneResult, \<lparr>admin_cache = [], now = 1, trace = [GetMember (- 100) 7]\<rparr>)"
    using can_manage_topics_reads_restrict_members
      [of "platform ChatMemberOwner" "command\<lparr>bot_id := 7\<rparr>" fresh,
       THEN conjunct2, THEN conjunct1, rule_format, of ChatMemberOwner, OF conjI [OF b1 b2]]
    by (simp add: sample_defs)
  have c: "can_manage_topics ?topics command fresh = can_manage_topics ?off command fresh"
    by (rule can_manage_topics_reads_restrict_members
      [of ?off command fresh, THEN conjunct2, THEN conjunct2, rule_format,
       of "[(''can_restrict_members'', False), (''can_manage_topics'', False)]" ?topics
          "[(''can_restrict_members'', False), (''can_manage_topics'', True)]"])
      (simp add: platform_rights_def)
  have d: "fst (can_manage_topics ?topics command fresh) \<noteq> Inr FuncResult"
    unfolding can_manage_topics_reads_restrict_members [of ?topics command fresh, THEN conjunct1]
    by (simp add: platform_rights_def)
  from a b1 b2 b c d show ?thesis by blast
qed

section \<open>The claim about the administrator cache\<close>

text \<open>Facts about the cache operations and about \<open>is_user_admin\<close> on a miss and on a hit.\<close>

lemma find_append_skip:
  "(\<And>x. x \<in> set xs \<Longrightarrow> \<not> P x) \<Longrightarrow> find P (xs @ ys) = find P ys"
  by (induction xs) simp_all

lemma filter_key_shorter:
  assumes "k \<in> entry_key ` set xs"
  shows "length (filter (\<lambda>e. entry_key e \<noteq> k) xs) < length xs"
proof -
  from assms obtain e where "e \<in> set xs" and "entry_key e = k"
    by auto
  then show ?thesis
    by (intro length_filter_less [of e]) simp_all
qed

lemma set_tl_subset: "x \<in> set (tl xs) \<Longrightarrow> x \<in> set xs"
  by (cases xs) simp_all

lemma kept_entries_other_key:
  "e \<in> set (kept_entries t c k) \<Longrightarrow> entry_key e \<noteq> k"
  by (auto simp add: kept_entries_def Let_def split: if_splits dest: set_tl_subset)

lemma kept_entries_length:
  "length c \<le> maxsize \<Longrightarrow> Suc (length (kept_entries t c k)) \<le> maxsize"
proof -
  assume le: "length c \<le> maxsize"
  let ?u = "filter (\<lambda>e. t < expires e) c"
  have u: "length ?u \<le> maxsize"
    using le length_filter_le [of "\<lambda>e. t < expires e" c] by linarith
  show ?thesis
  proof (cases "k \<in> entry_key ` set ?u")
    case True
    from filter_key_shorter [OF True] u show ?thesis
      using True by (simp add: kept_entries_def Let_def)
  next
    case False
    with u show ?thesis
      by (cases ?u) (auto simp add: kept_entries_def Let_def maxsize_def)
  qed
qed

lemma cache_store_length:
  "length c \<le> maxsize \<Longrightarrow> length (cache_store t c k v) \<le> maxsize"
  using kept_entries_length [of c t k] by (simp add: cache_store_def)

lemma cache_find_sound:
  "cache_find t c k = Some e \<Longrightarrow> e \<in> set c \<and> entry_key e = k \<and> t < expires e"
  by (auto simp add: cache_find_def find_Some_iff)

lemma cache_lookup_length:
  "length (snd (cache_lookup t c k)) \<le> length c"
proof (cases "cache_find t c k")
  case None
  then show ?thesis by (simp add: cache_lookup_def)
next
  case (Some e)
  from cache_find_sound [OF Some] have "k \<in> entry_key ` set c" by auto
  from filter_key_shorter [OF this] Some show ?thesis
    by (simp add: cache_lookup_def)
qed

lemma cache_lookup_hit_last:
  "fst (cache_lookup t c k) = Some v \<Longrightarrow>
     snd (cache_lookup t c k) \<noteq> [] \<and> entry_key (last (snd (cache_lookup t c k))) = k
     \<and> entry_value (last (snd (cache_lookup t c k))) = v"
  by (auto simp add: cache_lookup_def split: option.splits dest: cache_find_sound)

lemma cache_store_evicts_lru:
  assumes "length c = maxsize" and "\<forall>e\<in>set c. t < expires e" and "k \<notin> entry_key ` set c"
  shows "cache_store t c k v = tl c @ [\<lparr>entry_key = k, entry_value = v, expires = t + ttl\<rparr>]"
proof -
  have "filter (\<lambda>e. t < expires e) c = c"
    using assms(2) by (simp add: filter_id_conv)
  with assms(1,3) show ?thesis
    by (simp add: cache_store_def kept_entries_def Let_def)
qed

lemma cache_find_stored:
  "cache_find t' (cache_store t c k v) k =
     (if t' < t + ttl then Some \<lparr>entry_key = k, entry_value = v, expires = t + ttl\<rparr> else None)"
  unfolding cache_find_def cache_store_def
  by (subst find_append_skip) (auto dest: kept_entries_other_key)

lemma filter_kept_entries:
  "filter (\<lambda>x. entry_key x \<noteq> k) (kept_entries t c k) = kept_entries t c k"
  by (simp add: filter_id_conv kept_entries_other_key)

lemma cache_lookup_expired:
  "t + ttl \<le> t' \<Longrightarrow> cache_lookup t' (cache_store t c k v) k = (None, cache_store t c k v)"
  by (simp add: cache_lookup_def cache_find_stored)

lemma cache_lookup_fresh:
  "t' < t + ttl \<Longrightarrow> cache_lookup t' (cache_store t c k v) k = (Some v, cache_store t c k v)"
  by (simp add: cache_lookup_def cache_find_stored) (simp add: cache_store_def filter_kept_entries)

lemma is_user_admin_refresh:
  assumes "chat_type ch \<noteq> PRIVATE"
    and "uid \<notin> set (DRAGONS cfg)" and "uid \<notin> set (DEV_USERS cfg)"
    and "uid \<noteq> 777000" and "uid \<noteq> 1087968824"
    and miss: "fst (cache_lookup (now w) (admin_cache w) (chat_id ch)) = None"
    and ok: "bot_getChatAdministrators up (chat_id ch) = Inr admins"
  shows "is_user_admin cfg up ch uid None w =
           (Inr (uid \<in> set (map fst admins)),
            w\<lparr>admin_cache := cache_store (now w + latency up) (admin_cache w) (chat_id ch) (map fst admins),
              now := now w + latency up,
              trace := trace w @ [GetChatAdministrators (chat_id ch)]\<rparr>)"
  using assms(1-5) ok cache_lookup_miss [OF miss]
  by (simp add: is_user_admin_def io_defs)

lemma is_user_admin_hit:
  assumes "chat_type ch \<noteq> PRIVATE"
    and "uid \<notin> set (DRAGONS cfg)" and "uid \<notin> set (DEV_USERS cfg)"
    and "uid \<noteq> 777000" and "uid \<noteq> 1087968824"
    and hit: "cache_lookup (now w) (admin_cache w) (chat_id ch) = (Some admins, c')"
  shows "is_user_admin cfg up ch uid None w = (Inr (uid \<in> set admins), w\<lparr>admin_cache := c'\<rparr>)"
  using assms by (simp add: is_user_admin_def io_defs)

lemma ttl_positive: "0 < ttl"
  by (simp add: ttl_def)

text \<open>
  Claim C5: the cache is built for 512 entries and 600 seconds.  A cache of at most 512
  entries has at most 512 after a store and after a lookup; storing a new chat in a
  cache of 512 live entries drops exactly the first, least recently used, entry; a
  stored entry is a miss from 600 seconds after the store on and a hit with the stored
  list before; a hit makes its entry the last, most recently used, one.  On a miss \<open>is_user_admin\<close> (for a user who is not privileged, without a
  member record, in a chat that is not private) sends one request for the
  administrators, stores the whole list of their identifiers under the chat with the
  expiry counted from the store, and answers by membership in that list; the same
  question right afterwards is answered from the cache, with the same answer and
  without a request.
\<close>

theorem admin_cache_policy:
  "maxsize = 512 \<and> ttl = 600
   \<and> (length c \<le> maxsize \<longrightarrow>
         length (cache_store t c k v) \<le> maxsize \<and> length (snd (cache_lookup t c k)) \<le> maxsize)
   \<and> (length c = maxsize \<and> (\<forall>e\<in>set c. t < expires e) \<and> k \<notin> entry_key ` set c \<longrightarrow>
         cache_store t c k v = tl c @ [\<lparr>entry_key = k, entry_value = v, expires = t + ttl\<rparr>])
   \<and> (\<forall>t'. t + ttl \<le> t' \<longrightarrow> cache_lookup t' (cache_store t c k v) k = (None, cache_store t c k v))
   \<and> (\<forall>t'. t' < t + ttl \<longrightarrow> cache_lookup t' (cache_store t c k v) k = (Some v, cache_store t c k v))
   \<and> (\<forall>v'. fst (cache_lookup t c k) = Some v' \<longrightarrow>
         entry_key (last (snd (cache_lookup t c k))) = k
         \<and> entry_value (last (snd (cache_lookup t c k))) = v')
   \<and> (chat_type ch \<noteq> PRIVATE \<and> uid \<notin> set (DRAGONS cfg) \<and> uid \<notin> set (DEV_USERS cfg)
        \<and> uid \<noteq> 777000 \<and> uid \<noteq> 1087968824
        \<and> fst (cache_lookup (now w) (admin_cache w) (chat_id ch)) = None
        \<and> bot_getChatAdministrators up (chat_id ch) = Inr admins \<longrightarrow>
         (let refreshed = w\<lparr>admin_cache := cache_store (now w + latency up) (admin_cache w)
                                              (chat_id ch) (map fst admins),
                            now := now w + latency up,
                            trace := trace w @ [GetChatAdministrators (chat_id ch)]\<rparr>
          in is_user_admin cfg up ch uid None w = (Inr (uid \<in> set (map fst admins)), refreshed)
             \<and> is_user_admin cfg up ch uid None refreshed
                 = (Inr (uid \<in> set (map fst admins)), refreshed)))"
proof (intro conjI allI impI)
  show "maxsize = 512" by (simp add: maxsize_def)
  show "ttl = 600" by (simp add: ttl_def)
  show "length (cache_store t c k v) \<le> maxsize" if "length c \<le> maxsize"
    using that by (rule cache_store_length)
  show "length (snd (cache_lookup t c k)) \<le> maxsize" if "length c \<le> maxsize"
    using that cache_lookup_length [of t c k] by linarith
  show "cache_store t c k v = tl c @ [\<lparr>entry_key = k, entry_value = v, expires = t + ttl\<rparr>]"
    if "length c = maxsize \<and> (\<forall>e\<in>set c. t < expires e) \<and> k \<notin> entry_key ` set c"
    using that by (intro cache_store_evicts_lru) simp_all
  show "cache_lookup t' (cache_store t c k v) k = (None, cache_store t c k v)" if "t + ttl \<le> t'" for t'
    using that by (rule cache_lookup_expired)
  show "cache_lookup t' (cache_store t c k v) k = (Some v, cache_store t c k v)" if "t' < t + ttl" for t'
    using that by (rule cache_lookup_fresh)
  show "entry_key (last (snd (cache_lookup t c k))) = k" if "fst (cache_lookup t c k) = Some v'" for v'
    using cache_lookup_hit_last [OF that] by simp
  show "entry_value (last (snd (cache_lookup t c k))) = v'" if "fst (cache_lookup t c k) = Some v'" for v'
    using cache_lookup_hit_last [OF that] by simp
next
  assume h: "chat_type ch \<noteq> PRIVATE \<and> uid \<notin> set (DRAGONS cfg) \<and> uid \<notin> set (DEV_USERS cfg)
        \<and> uid \<noteq> 777000 \<and> uid \<noteq> 1087968824
        \<and> fst (cache_lookup (now w) (admin_cache w) (chat_id ch)) = None
        \<and> bot_getChatAdministrators up (chat_id ch) = Inr admins"
  define refreshed where "refreshed = w\<lparr>admin_cache := cache_store (now w + latency up) (admin_cache w)
                                              (chat_id ch) (map fst admins),
                            now := now w + latency up,
                            trace := trace w @ [GetChatAdministrators (chat_id ch)]\<rparr>"
  have first: "is_user_admin cfg up ch uid None w = (Inr (uid \<in> set (map fst admins)), refreshed)"
    unfolding refreshed_def using h by (intro is_user_admin_refresh) simp_all
  have "now refreshed < now w + latency up + ttl"
    using ttl_positive by (simp add: refreshed_def)
  then have "cache_lookup (now refreshed) (admin_cache refreshed) (chat_id ch)
      = (Some (map fst admins), admin_cache refreshed)"
    by (simp add: refreshed_def cache_lookup_fresh)
  then have "is_user_admin cfg up ch uid None refreshed
      = (Inr (uid \<in> set (map fst admins)), refreshed\<lparr>admin_cache := admin_cache refreshed\<rparr>)"
    using h by (intro is_user_admin_hit) simp_all
  then have second: "is_user_admin cfg up ch uid None refreshed
      = (Inr (uid \<in> set (map fst admins)), refreshed)"
    by simp
  from first second
  show "let refreshed = w\<lparr>admin_cache := cache_store (now w + latency up) (admin_cache w)
                                              (chat_id ch) (map fst admins),
                            now := now w + latency up,
                            trace := trace w @ [GetChatAdministrators (chat_id ch)]\<rparr>
          in is_user_admin cfg up ch uid None w = (Inr (uid \<in> set (map fst admins)), refreshed)
             \<and> is_user_admin cfg up ch uid None refreshed
                 = (Inr (uid \<in> set (map fst admins)), refreshed)"
    unfolding refreshed_def Let_def by simp
qed

theorem admin_cache_policy_witness:
  "length full_cache = maxsize
   \<and> 512 \<notin> entry_key ` set full_cache
   \<and> length (cache_store 0 full_cache 512 [1, 2]) \<le> maxsize
   \<and> cache_store 0 full_cache 512 [1, 2]
       = tl full_cache @ [\<lparr>entry_key = 512, entry_value = [1, 2], expires = 600\<rparr>]
   \<and> cache_lookup 600 (cache_store 0 full_cache 512 [1, 2]) 512
       = (None, cache_store 0 full_cache 512 [1, 2])
   \<and> cache_lookup 599 (cache_store 0 full_cache 512 [1, 2]) 512
       = (Some [1, 2], cache_store 0 full_cache 512 [1, 2])
   \<and> fst (cache_lookup 0 two_chats 5) = Some [9]
   \<and> entry_key (last (snd (cache_lookup 0 two_chats 5))) = 5
   \<and> is_user_admin no_tiers (platform ChatMemberMember) group_chat 7 None fresh
       = (Inr False, \<lparr>admin_cache = [\<lparr>entry_key = - 100, entry_value = [1, 2], expires = 601\<rparr>],
                       now = 1, trace = [GetChatAdministrators (- 100)]\<rparr>)
   \<and> is_user_admin no_tiers (platform ChatMemberMember) group_chat 7 None
         \<lparr>admin_cache = [\<lparr>entry_key = - 100, entry_value = [1, 2], expires = 601\<rparr>],
            now = 1, trace = [GetChatAdministrators (- 100)]\<rparr>
       = (Inr False, \<lparr>admin_cache = [\<lparr>entry_key = - 100, entry_value = [1, 2], expires = 601\<rparr>],
                       now = 1, trace = [GetChatAdministrators (- 100)]\<rparr>)"
proof -
  note policy = admin_cache_policy [where c = full_cache and t = 0 and k = 512 and v = "[1, 2]"
      and ch = group_chat and uid = 7 and cfg = no_tiers and w = fresh
      and up = "platform ChatMemberMember"
      and admins = "[(1, ChatMemberAdministrator []), (2, ChatMemberOwner)]"]
  note size = policy [THEN conjunct1]
  note life = policy [THEN conjunct2, THEN conjunct1]
  note bound = policy [THEN conjunct2, THEN conjunct2, THEN conjunct1, rule_format]
  note evict = policy [THEN conjunct2, THEN conjunct2, THEN conjunct2, THEN conjunct1, rule_format]
  note expired = policy [THEN conjunct2, THEN conjunct2, THEN conjunct2, THEN conjunct2,
      THEN conjunct1, rule_format]
  note hit = policy [THEN conjunct2, THEN conjunct2, THEN conjunct2, THEN conjunct2,
      THEN conjunct2, THEN conjunct1, rule_format]
  note refresh = policy [THEN conjunct2, THEN conjunct2, THEN conjunct2, THEN conjunct2,
      THEN conjunct2, THEN conjunct2, THEN conjunct2, rule_format]
  note used = admin_cache_policy [where c = two_chats and t = 0 and k = 5,
      THEN conjunct2, THEN conjunct2, THEN conjunct2, THEN conjunct2,
      THEN conjunct2, THEN conjunct2, THEN conjunct1, rule_format]
  have full: "length full_cache = maxsize"
    by (simp add: full_cache_def size)
  have live: "\<forall>e\<in>set full_cache. 0 < expires e"
    by (simp add: full_cache_def)
  have new: "512 \<notin> entry_key ` set full_cache"
    by (auto simp add: full_cache_def)
  have a: "length (cache_store 0 full_cache 512 [1, 2]) \<le> maxsize"
    using bound full by simp
  have b: "cache_store 0 full_cache 512 [1, 2]
       = tl full_cache @ [\<lparr>entry_key = 512, entry_value = [1, 2], expires = 600\<rparr>]"
    using evict [OF conjI [OF full conjI [OF live new]]] by (simp add: life)
  have c: "cache_lookup 600 (cache_store 0 full_cache 512 [1, 2]) 512
       = (None, cache_store 0 full_cache 512 [1, 2])"
    by (rule expired) (simp add: life)
  have d: "cache_lookup 599 (cache_store 0 full_cache 512 [1, 2]) 512
       = (Some [1, 2], cache_store 0 full_cache 512 [1, 2])"
    by (rule hit) (simp add: life)
  have u1: "fst (cache_lookup 0 two_chats 5) = Some [9]"
    by (simp add: two_chats_def cache_lookup_def cache_find_def)
  have u2: "entry_key (last (snd (cache_lookup 0 two_chats 5))) = 5"
    using used [OF u1] by simp
  have pre: "chat_type group_chat \<noteq> PRIVATE \<and> 7 \<notin> set (DRAGONS no_tiers) \<and> 7 \<notin> set (DEV_USERS no_tiers)
        \<and> (7::int) \<noteq> 777000 \<and> (7::int) \<noteq> 1087968824
        \<and> fst (cache_lookup (now fresh) (admin_cache fresh) (chat_id group_chat)) = None
        \<and> bot_getChatAdministrators (platform ChatMemberMember) (chat_id group_chat)
            = Inr [(1, ChatMemberAdministrator []), (2, ChatMemberOwner)]"
    by (simp add: sample_defs cache_lookup_def cache_find_def)
  have store: "cache_store 1 [] (- 100) [1, 2]
      = [\<lparr>entry_key = - 100, entry_value = [1, 2], expires = 601\<rparr>]"
    by (simp add: cache_store_def kept_entries_def life)
  have e: "is_user_admin no_tiers (platform ChatMemberMember) group_chat 7 None fresh
       = (Inr False, \<lparr>admin_cache = [\<lparr>entry_key = - 100, entry_value = [1, 2], expires = 601\<rparr>],
                       now = 1, trace = [GetChatAdministrators (- 100)]\<rparr>)
   \<and> is_user_admin no_tiers (platform ChatMemberMember) group_chat 7 None
         \<lparr>admin_cache = [\<lparr>entry_key = - 100, entry_value = [1, 2], expires = 601\<rparr>],
            now = 1, trace = [GetChatAdministrators (- 100)]\<rparr>
       = (Inr False, \<lparr>admin_cache = [\<lparr>entry_key = - 100, entry_value = [1, 2], expires = 601\<rparr>],
                       now = 1, trace = [GetChatAdministrators (- 100)]\<rparr>)"
    using refresh [OF pre] by (simp add: Let_def sample_defs store)
  from full new a b c d u1 u2 e show ?thesis by blast
qed

end
